theory Spec2Isabelle
  imports Main
begin

section \<open>Values, errors and the object store\<close>

text \<open>
  The module \<^verbatim>\<open>examples/models/llama2/eval_llama_lib.py\<close> works on one-dimensional
  integer tensors, on Python lists of task names and on a tokenizer object. A tensor is
  modelled by the list of its elements, a Python \<^verbatim>\<open>int\<close> by \<^typ>\<open>int\<close>.
  Every \<^verbatim>\<open>raise\<close> of the module or of a torch operation it calls is a value
  \<open>Inl e\<close> of the result type.
\<close>

type_synonym tensor = "int list"

datatype error =
    RuntimeError string
  | Exception string

datatype torch_device = Cuda | Cpu

text \<open>
  Objects live in a store and are referred to by their address, the index in the list of
  objects of their kind. A Python variable always refers to a live object, so the theorems
  below take an address \<open>a\<close> of a tensor with \<open>a < length (tensors w)\<close>. The field
  \<open>uninit\<close> is what the memory handed out by the next allocation happens to contain:
  \<^verbatim>\<open>torch.empty\<close> returns a tensor of uninitialised data, so its elements are
  whatever that memory held. The field \<open>free_elems\<close> is the number of tensor elements
  the allocator can still provide: an allocation of more elements raises, a successful
  one uses them up. The field \<open>modules\<close> holds the state of the
  \<^verbatim>\<open>nn.Module\<close> objects, caches included.
\<close>

record 'm world =
  tensors :: "tensor list"
  modules :: "'m list"
  uninit :: "nat \<Rightarrow> int"
  free_elems :: nat

section \<open>The harness adapter\<close>

text \<open>
  The tokenizer is an object of another library (a \<^verbatim>\<open>SentencePieceProcessor\<close>);
  the adapter only calls its four methods, which are the fields of this record.
\<close>

record tokenizer =
  bos_id :: int
  eos_id :: int
  encode :: "string \<Rightarrow> int list"
  decode :: "int list \<Rightarrow> string"

text \<open>
  The fields that \<^verbatim>\<open>GPTFastEvalWrapper.__init__\<close> sets. The model is held by
  reference.
\<close>

record GPTFastEvalWrapper =
  model_field :: nat
  tokenizer_field :: tokenizer
  device_field :: torch_device
  max_seq_length_field :: int

text \<open>
  \<^verbatim>\<open>__init__(self, model, tokenizer, max_seq_length=None)\<close>. The answer of
  \<^verbatim>\<open>torch.cuda.is_available()\<close> is the argument \<open>cuda_is_available\<close>. The
  constructor of the base class is code of the harness; none of the fields below is read
  or written by it before they are assigned here.
\<close>

definition GPTFastEvalWrapper_init ::
  "bool \<Rightarrow> nat \<Rightarrow> tokenizer \<Rightarrow> int option \<Rightarrow> GPTFastEvalWrapper" where
  "GPTFastEvalWrapper_init cuda_is_available model tokenizer max_seq_length =
     \<lparr> model_field = model,
       tokenizer_field = tokenizer,
       device_field = (if cuda_is_available then Cuda else Cpu),
       max_seq_length_field =
         (case max_seq_length of None \<Rightarrow> 2048 | Some n \<Rightarrow> n) \<rparr>"

definition eot_token_id :: "GPTFastEvalWrapper \<Rightarrow> int" where
  "eot_token_id self = eos_id (tokenizer_field self)"

definition max_length :: "GPTFastEvalWrapper \<Rightarrow> int" where
  "max_length self = max_seq_length_field self"

definition max_gen_toks :: "GPTFastEvalWrapper \<Rightarrow> int" where
  "max_gen_toks self = 50"

definition batch_size :: "GPTFastEvalWrapper \<Rightarrow> int" where
  "batch_size self = 1"

definition device :: "GPTFastEvalWrapper \<Rightarrow> torch_device" where
  "device self = device_field self"

text \<open>
  \<^verbatim>\<open>_model_generate(self, context, max_length, eos_token_id)\<close>: its body is the
  single statement \<^verbatim>\<open>raise Exception("unimplemented")\<close>.
\<close>

definition model_generate ::
  "GPTFastEvalWrapper \<Rightarrow> 'c \<Rightarrow> 'l \<Rightarrow> 'e \<Rightarrow> error + 'r" where
  "model_generate self context max_len eos_token_id = Inl (Exception ''unimplemented'')"

text \<open>
  \<^verbatim>\<open>torch.tensor(tokens, dtype=torch.int, device=...)\<close> on a list of Python
  integers: the elements are stored as 32-bit signed integers, and an element outside that
  range makes the call raise.
\<close>

definition fits_int32 :: "int \<Rightarrow> bool" where
  "fits_int32 x = (- (2 ^ 31) \<le> x \<and> x < 2 ^ 31)"

definition torch_tensor_int :: "int list \<Rightarrow> error + tensor" where
  "torch_tensor_int xs =
     (if list_all fits_int32 xs then Inr xs
      else Inl (RuntimeError ''value cannot be converted to type int32 without overflow''))"

text \<open>\<^verbatim>\<open>Tensor.tolist()\<close> of a one-dimensional tensor: the list of its elements.\<close>

definition tolist :: "tensor \<Rightarrow> int list" where
  "tolist t = t"

text \<open>\<^verbatim>\<open>tok_encode(self, string, **kwargs)\<close>\<close>

definition tok_encode :: "GPTFastEvalWrapper \<Rightarrow> string \<Rightarrow> error + int list" where
  "tok_encode self string =
     (let tokens = [bos_id (tokenizer_field self)] @ encode (tokenizer_field self) string
      in case torch_tensor_int tokens of
           Inl e \<Rightarrow> Inl e
         | Inr encoded \<Rightarrow> Inr (tolist encoded))"

definition tok_decode :: "GPTFastEvalWrapper \<Rightarrow> int list \<Rightarrow> string" where
  "tok_decode self tokens = decode (tokenizer_field self) tokens"

section \<open>The prefill buffer builder\<close>

text \<open>
  \<^verbatim>\<open>torch.empty(n, dtype=dtype, device=device)\<close>: a negative size raises, a size
  that does not fit a signed 64-bit integer raises, and so does a size the allocator
  cannot provide; otherwise a new tensor of \<open>n\<close> elements is allocated and its address
  returned. The elements are not initialised.
\<close>

definition torch_empty :: "'m world \<Rightarrow> int \<Rightarrow> 'm world \<times> (error + nat)" where
  "torch_empty w n =
     (if n < 0
      then (w, Inl (RuntimeError ''Trying to create tensor with negative dimension''))
      else if 2 ^ 63 \<le> n
      then (w, Inl (RuntimeError ''Overflow when unpacking long''))
      else if free_elems w < nat n
      then (w, Inl (RuntimeError ''not enough memory''))
      else (w\<lparr>tensors := tensors w @ [map (uninit w) [0..<nat n]],
              free_elems := free_elems w - nat n\<rparr>,
            Inr (length (tensors w))))"

text \<open>
  \<^verbatim>\<open>dst[:t] = src\<close> for one-dimensional tensors: the slice is the first
  \<open>min t (length dst)\<close> elements of the object at address \<open>dst\<close>, written in place.
  The source must have the size of the slice or a single element (which is then
  broadcast); any other size raises.
\<close>

definition setitem_prefix ::
  "'m world \<Rightarrow> nat \<Rightarrow> nat \<Rightarrow> tensor \<Rightarrow> 'm world \<times> (error + unit)" where
  "setitem_prefix w dst t src =
     (let old = tensors w ! dst; k = min t (length old)
      in if length src = k
         then (w\<lparr>tensors := (tensors w)[dst := src @ drop k old]\<rparr>, Inr ())
         else if length src = 1
         then (w\<lparr>tensors := (tensors w)[dst := replicate k (hd src) @ drop k old]\<rparr>, Inr ())
         else (w, Inl (RuntimeError
                 ''The expanded size of the tensor must match the existing size'')))"

text \<open>
  \<^verbatim>\<open>torch.arange(lo, hi, device=device)\<close>: a new tensor holding
  \<open>lo, lo + 1, ..., hi - 1\<close>; the call raises when the allocator cannot provide its
  elements.
\<close>

definition torch_arange :: "'m world \<Rightarrow> int \<Rightarrow> int \<Rightarrow> 'm world \<times> (error + nat)" where
  "torch_arange w lo hi =
     (if free_elems w < nat (hi - lo)
      then (w, Inl (RuntimeError ''not enough memory''))
      else (w\<lparr>tensors := tensors w @ [[lo..hi - 1]],
              free_elems := free_elems w - nat (hi - lo)\<rparr>,
            Inr (length (tensors w))))"

text \<open>The default of the parameter \<^verbatim>\<open>block_size\<close>.\<close>

definition default_block_size :: int where
  "default_block_size = 2048"

text \<open>
  \<^verbatim>\<open>setup_cache_padded_seq_input_pos_max_seq_length_for_prefill(model, prompt,
  max_new_tokens, max_seq_length=None, block_size=2048)\<close>. The arguments \<open>model\<close> and
  \<open>prompt\<close> are addresses; the result is the store after the call together with either
  the error raised or the triple \<open>(seq, input_pos, max_seq_length)\<close>, the first two
  being the addresses of the tensors returned. The call of \<^verbatim>\<open>model.setup_caches\<close>
  is commented out in the source, so nothing here touches \<open>modules\<close>.
\<close>

definition setup_cache_padded_seq_input_pos_max_seq_length_for_prefill ::
  "'m world \<Rightarrow> nat \<Rightarrow> nat \<Rightarrow> int \<Rightarrow> int option \<Rightarrow> int \<Rightarrow>
     'm world \<times> (error + nat \<times> nat \<times> int)" where
  "setup_cache_padded_seq_input_pos_max_seq_length_for_prefill
      w model prompt max_new_tokens max_seq_length block_size =
     (let T = length (tensors w ! prompt);
          T_new = int T + max_new_tokens;
          max_seq_length' =
            (case max_seq_length of None \<Rightarrow> min T_new block_size | Some m \<Rightarrow> m)
      in case torch_empty w T_new of
           (w1, Inl e) \<Rightarrow> (w1, Inl e)
         | (w1, Inr empty') \<Rightarrow>
             (case setitem_prefix w1 empty' T (tensors w1 ! prompt) of
                (w2, Inl e) \<Rightarrow> (w2, Inl e)
              | (w2, Inr u) \<Rightarrow>
                  (let seq = empty'
                   in case torch_arange w2 0 (int T) of
                        (w3, Inl e) \<Rightarrow> (w3, Inl e)
                      | (w3, Inr input_pos) \<Rightarrow>
                          (w3, Inr (seq, input_pos, max_seq_length')))))"

section \<open>Running the evaluation\<close>

text \<open>
  \<^verbatim>\<open>eval(eval_wrapper, tasks=None, limit=None)\<close>. Python lists are objects of the
  store \<open>heap\<close>, one list of task names per address, and \<open>tasks\<close> is \<open>None\<close> or
  the address of the caller's list. Three functions of the harness are called and are
  parameters here: \<open>create_all_tasks\<close> is the result of
  \<^verbatim>\<open>list(lm_eval.tasks.hendrycks_test.create_all_tasks().keys())\<close>, an error or the
  list of names; \<open>get_task_dict\<close> and \<open>evaluate\<close> read their arguments and return a
  value or raise. \<^verbatim>\<open>tasks.remove(x)\<close> deletes the first element equal to
  \<open>x\<close> and \<^verbatim>\<open>tasks += xs\<close> extends the list object in place. The result is the
  store after the call and the value returned or the error raised.
\<close>

definition eval ::
  "(error + string list) \<Rightarrow> (string list \<Rightarrow> error + 'd) \<Rightarrow>
   ('w \<Rightarrow> 'd \<Rightarrow> int option \<Rightarrow> error + 'r) \<Rightarrow>
   string list list \<Rightarrow> 'w \<Rightarrow> nat option \<Rightarrow> int option \<Rightarrow>
     string list list \<times> (error + 'r)" where
  "eval create_all_tasks get_task_dict evaluate heap eval_wrapper tasks limit =
     (let (heap1, tasks1) =
            (case tasks of
               None \<Rightarrow> (heap @ [[''wikitext'']], length heap)
             | Some r \<Rightarrow> (heap, r))
      in case (if ''hendrycks_test'' \<in> set (heap1 ! tasks1)
               then (let heap2 = heap1[tasks1 := remove1 ''hendrycks_test'' (heap1 ! tasks1)]
                     in case create_all_tasks of
                          Inl e \<Rightarrow> (heap2, Inl e)
                        | Inr names \<Rightarrow> (heap2[tasks1 := heap2 ! tasks1 @ names], Inr ()))
               else (heap1, Inr ())) of
           (heap3, Inl e) \<Rightarrow> (heap3, Inl e)
         | (heap3, Inr u) \<Rightarrow>
             (case get_task_dict (heap3 ! tasks1) of
                Inl e \<Rightarrow> (heap3, Inl e)
              | Inr task_dict \<Rightarrow> (heap3, evaluate eval_wrapper task_dict limit)))"

section \<open>Properties of the adapter\<close>

text \<open>
  Claim C5. Whatever the arguments \<open>context\<close>, \<open>max_length\<close> and \<open>eos_token_id\<close>
  are, the generation operation of the adapter raises: its result is the error
  \<open>Exception "unimplemented"\<close>, and it is never a returned value.
\<close>

theorem model_generate_always_raises:
  "model_generate self context max_len eos_token_id = Inl (Exception ''unimplemented'')
   \<and> (\<nexists>v. model_generate self context max_len eos_token_id = Inr v)"
  by (simp add: model_generate_def)

text \<open>
  Claim C8. For every adapter built by the constructor, \<open>max_gen_toks\<close> is 50 and
  \<open>batch_size\<close> is 1; \<open>max_length\<close> is 2048 when the constructor was given no
  \<open>max_seq_length\<close>, and the given value otherwise.
\<close>

theorem adapter_constants:
  "max_gen_toks (GPTFastEvalWrapper_init cuda model tk msl) = 50
   \<and> batch_size (GPTFastEvalWrapper_init cuda model tk msl) = 1
   \<and> max_length (GPTFastEvalWrapper_init cuda model tk None) = 2048
   \<and> max_length (GPTFastEvalWrapper_init cuda model tk (Some n)) = n"
  by (simp add: max_gen_toks_def batch_size_def max_length_def GPTFastEvalWrapper_init_def)

section \<open>Facts about one call of the builder\<close>

text \<open>
  With a live prompt, a non-negative budget, a target length that fits 64 bits and enough
  memory for the buffer and the positions, the call returns, and this is the whole
  result: two tensors are allocated after the existing ones, the buffer and the position
  indices, and nothing else changes but the memory left.
\<close>

lemma setup_returns:
  assumes "prompt < length (tensors w)" and "0 \<le> N"
    and "int (length (tensors w ! prompt)) + N < 2 ^ 63"
    and "length (tensors w ! prompt) + nat N + length (tensors w ! prompt) \<le> free_elems w"
  shows "setup_cache_padded_seq_input_pos_max_seq_length_for_prefill w model prompt N msl bs =
     (w\<lparr>tensors := tensors w @
          [tensors w ! prompt @
             map (uninit w)
               [length (tensors w ! prompt) ..< length (tensors w ! prompt) + nat N],
           [0 .. int (length (tensors w ! prompt)) - 1]],
        free_elems := free_elems w
           - (length (tensors w ! prompt) + nat N + length (tensors w ! prompt))\<rparr>,
      Inr (length (tensors w), Suc (length (tensors w)),
           case msl of
             None \<Rightarrow> min (int (length (tensors w ! prompt)) + N) bs
           | Some m \<Rightarrow> m))"
  using assms
  by (simp add: setup_cache_padded_seq_input_pos_max_seq_length_for_prefill_def
      torch_empty_def setitem_prefix_def torch_arange_def Let_def nth_append
      nat_add_distrib drop_map)

text \<open>
  A call that returns had what it needed: the target length is not negative and fits 64
  bits, and the allocator could provide the buffer and then the positions.
\<close>

lemma setup_Inr_resources:
  assumes "setup_cache_padded_seq_input_pos_max_seq_length_for_prefill w model prompt N msl bs = (w', Inr r)"
  shows "0 \<le> int (length (tensors w ! prompt)) + N
       \<and> int (length (tensors w ! prompt)) + N < 2 ^ 63
       \<and> nat (int (length (tensors w ! prompt)) + N) + length (tensors w ! prompt)
            \<le> free_elems w"
  using assms
  by (auto simp: setup_cache_padded_seq_input_pos_max_seq_length_for_prefill_def
      torch_empty_def setitem_prefix_def torch_arange_def Let_def
      split: if_splits prod.splits sum.splits)

lemma setup_Inr_result:
  assumes ret: "setup_cache_padded_seq_input_pos_max_seq_length_for_prefill w model prompt N msl bs
                  = (w', Inr (seq, input_pos, m))"
    and live: "prompt < length (tensors w)"
    and budget: "0 \<le> N"
  shows "tensors w' ! seq
           = tensors w ! prompt @
             map (uninit w)
               [length (tensors w ! prompt) ..< length (tensors w ! prompt) + nat N]"
proof -
  from ret have res: "int (length (tensors w ! prompt)) + N < 2 ^ 63
      \<and> nat (int (length (tensors w ! prompt)) + N) + length (tensors w ! prompt)
           \<le> free_elems w"
    using setup_Inr_resources by blast
  from budget have "nat (int (length (tensors w ! prompt)) + N)
                      = length (tensors w ! prompt) + nat N"
    by (simp add: nat_add_distrib)
  with res have "length (tensors w ! prompt) + nat N + length (tensors w ! prompt)
                   \<le> free_elems w"
    by simp
  with live budget res ret show ?thesis
    by (auto simp: setup_returns nth_append)
qed

text \<open>Whenever the call returns, for any budget, the positions are \<open>0, ..., T - 1\<close>.\<close>

lemma setup_input_pos:
  assumes "setup_cache_padded_seq_input_pos_max_seq_length_for_prefill w model prompt N msl bs
             = (w', Inr (seq, input_pos, m))"
  shows "tensors w' ! input_pos = [0 .. int (length (tensors w ! prompt)) - 1]"
  using assms
  by (auto simp: setup_cache_padded_seq_input_pos_max_seq_length_for_prefill_def
      torch_empty_def setitem_prefix_def torch_arange_def Let_def nth_append
      split: if_splits prod.splits sum.splits)

text \<open>Whenever the call returns, the third component is the effective maximum length.\<close>

lemma setup_max_seq_length:
  assumes "setup_cache_padded_seq_input_pos_max_seq_length_for_prefill w model prompt N msl bs
             = (w', Inr (seq, input_pos, m))"
  shows "m = (case msl of
                None \<Rightarrow> min (int (length (tensors w ! prompt)) + N) bs
              | Some k \<Rightarrow> k)"
  using assms
  by (auto simp: setup_cache_padded_seq_input_pos_max_seq_length_for_prefill_def
      torch_empty_def setitem_prefix_def torch_arange_def Let_def
      split: if_splits prod.splits sum.splits)

text \<open>Returning or raising, the call leaves the modules and the existing tensors alone.\<close>

lemma setup_frame:
  "modules (fst (setup_cache_padded_seq_input_pos_max_seq_length_for_prefill
                   w model prompt N msl bs)) = modules w
   \<and> take (length (tensors w))
        (tensors (fst (setup_cache_padded_seq_input_pos_max_seq_length_for_prefill
                         w model prompt N msl bs))) = tensors w"
  by (simp add: setup_cache_padded_seq_input_pos_max_seq_length_for_prefill_def
      torch_empty_def setitem_prefix_def torch_arange_def Let_def)

lemma upto_0_2: "[0 .. (2::int)] = [0, 1, 2]"
  by (simp add: upto.simps)

lemma example_call:
  "setup_cache_padded_seq_input_pos_max_seq_length_for_prefill
     \<lparr>tensors = [[5, 6, 7]], modules = [()], uninit = (\<lambda>i. 9), free_elems = 100\<rparr> 0 0 2 msl 2048
   = (\<lparr>tensors = [[5, 6, 7], [5, 6, 7, 9, 9], [0, 1, 2]], modules = [()], uninit = (\<lambda>i. 9), free_elems = 92\<rparr>,
      Inr (1, 2, case msl of None \<Rightarrow> 5 | Some m \<Rightarrow> m))"
  by (cases msl) (simp_all add: setup_returns upto_0_2 upt_conv_Cons)

section \<open>Properties of the prefill buffer builder\<close>

text \<open>
  Claim C1 says that the last \<open>N\<close> entries of the returned buffer are zero, as the
  docstring of the function does ("prompt but padded with zeros"). The code allocates the
  buffer with \<^verbatim>\<open>torch.empty\<close>, which does not initialise it, and writes only the
  first \<open>T\<close> entries. For the prompt \<open>[5, 6, 7]\<close> and \<open>N = 2\<close>, in memory that held
  the value 9, the buffer returned is \<open>[5, 6, 7, 9, 9]\<close>: its last two entries are not
  zero.
\<close>

theorem prefill_tail_is_uninitialised:
  "setup_cache_padded_seq_input_pos_max_seq_length_for_prefill
     \<lparr>tensors = [[5, 6, 7]], modules = [()], uninit = (\<lambda>i. 9), free_elems = 100\<rparr>
     0 0 2 None default_block_size
   = (\<lparr>tensors = [[5, 6, 7], [5, 6, 7, 9, 9], [0, 1, 2]], modules = [()], uninit = (\<lambda>i. 9), free_elems = 92\<rparr>,
      Inr (1, 2, 5))"
  by (simp add: setup_returns default_block_size_def upto_0_2 upt_conv_Cons)

text \<open>
  Claim C2. For a prompt of length \<open>T \<ge> 1\<close>, a budget \<open>N \<ge> 0\<close> and any
  \<open>max_seq_length\<close>, given or not, the buffer returned has length \<open>T + N\<close> and its
  first \<open>T\<close> entries are the prompt. An explicit \<open>max_seq_length\<close> below \<open>T + N\<close>
  does not shorten the buffer: the witness passes \<open>max_seq_length = 1\<close> and gets a
  buffer of length 5. The call does return when \<open>T + N\<close> fits 64 bits and the allocator
  can provide the \<open>T + N\<close> elements of the buffer and the \<open>T\<close> positions.
\<close>

theorem prefill_buffer_length_and_prefix:
  assumes "prompt < length (tensors w)"
    and "1 \<le> length (tensors w ! prompt)"
    and "0 \<le> N"
  shows "(int (length (tensors w ! prompt)) + N < 2 ^ 63
          \<and> length (tensors w ! prompt) + nat N + length (tensors w ! prompt)
               \<le> free_elems w \<longrightarrow>
            (\<exists>w' r. setup_cache_padded_seq_input_pos_max_seq_length_for_prefill
                       w model prompt N max_seq_length bs = (w', Inr r)))
       \<and> (\<forall>w' seq input_pos m.
            setup_cache_padded_seq_input_pos_max_seq_length_for_prefill
              w model prompt N max_seq_length bs = (w', Inr (seq, input_pos, m)) \<longrightarrow>
            length (tensors w' ! seq) = length (tensors w ! prompt) + nat N
            \<and> take (length (tensors w ! prompt)) (tensors w' ! seq) = tensors w ! prompt)"
proof (intro conjI impI allI)
  assume "int (length (tensors w ! prompt)) + N < 2 ^ 63
          \<and> length (tensors w ! prompt) + nat N + length (tensors w ! prompt)
               \<le> free_elems w"
  with assms
  show "\<exists>w' r. setup_cache_padded_seq_input_pos_max_seq_length_for_prefill
                  w model prompt N max_seq_length bs = (w', Inr r)"
    by (simp add: setup_returns)
next
  fix w' seq input_pos m
  assume "setup_cache_padded_seq_input_pos_max_seq_length_for_prefill
            w model prompt N max_seq_length bs = (w', Inr (seq, input_pos, m))"
  then have buf: "tensors w' ! seq
           = tensors w ! prompt @
             map (uninit w)
               [length (tensors w ! prompt) ..< length (tensors w ! prompt) + nat N]"
    using assms(1) assms(3) by (rule setup_Inr_result)
  show "length (tensors w' ! seq) = length (tensors w ! prompt) + nat N"
    by (simp add: buf)
  show "take (length (tensors w ! prompt)) (tensors w' ! seq) = tensors w ! prompt"
    by (simp add: buf)
qed

theorem prefill_buffer_length_and_prefix_witness:
  "(0::nat) < length (tensors \<lparr>tensors = [[5, 6, 7]], modules = [()], uninit = (\<lambda>i. 9), free_elems = 100\<rparr>)
   \<and> 1 \<le> length (tensors \<lparr>tensors = [[5, 6, 7]], modules = [()], uninit = (\<lambda>i. 9), free_elems = 100\<rparr> ! 0)
   \<and> (0::int) \<le> 2
   \<and> setup_cache_padded_seq_input_pos_max_seq_length_for_prefill
        \<lparr>tensors = [[5, 6, 7]], modules = [()], uninit = (\<lambda>i. 9), free_elems = 100\<rparr> 0 0 2 (Some 1) 2048
      = (\<lparr>tensors = [[5, 6, 7], [5, 6, 7, 9, 9], [0, 1, 2]], modules = [()], uninit = (\<lambda>i. 9), free_elems = 92\<rparr>,
         Inr (1, 2, 1))
   \<and> length [5, 6, 7, 9, 9 :: int] = 3 + nat 2
   \<and> take 3 [5, 6, 7, 9, 9 :: int] = [5, 6, 7]"
  using prefill_buffer_length_and_prefix
    [where w = "\<lparr>tensors = [[5, 6, 7]], modules = [()], uninit = (\<lambda>i. 9), free_elems = 100\<rparr>"
       and prompt = 0 and N = 2 and model = 0 and max_seq_length = "Some 1" and bs = 2048]
  by (simp add: example_call)

text \<open>
  Claim C3. For a prompt of length \<open>T \<ge> 1\<close>, whenever the call returns, the position
  index sequence has length \<open>T\<close>, starts at 0, ends at \<open>T - 1\<close> and grows by exactly 1
  from each entry to the next. The call does return when \<open>N \<ge> 0\<close>, \<open>T + N\<close> fits 64
  bits and the allocator can provide the buffer and the positions.
\<close>

theorem prefill_input_pos:
  assumes "prompt < length (tensors w)"
    and "1 \<le> length (tensors w ! prompt)"
  shows "(0 \<le> N \<and> int (length (tensors w ! prompt)) + N < 2 ^ 63
          \<and> length (tensors w ! prompt) + nat N + length (tensors w ! prompt)
               \<le> free_elems w \<longrightarrow>
            (\<exists>w' r. setup_cache_padded_seq_input_pos_max_seq_length_for_prefill
                       w model prompt N max_seq_length bs = (w', Inr r)))
       \<and> (\<forall>w' seq input_pos m.
            setup_cache_padded_seq_input_pos_max_seq_length_for_prefill
              w model prompt N max_seq_length bs = (w', Inr (seq, input_pos, m)) \<longrightarrow>
            length (tensors w' ! input_pos) = length (tensors w ! prompt)
            \<and> hd (tensors w' ! input_pos) = 0
            \<and> last (tensors w' ! input_pos) = int (length (tensors w ! prompt)) - 1
            \<and> (\<forall>i. Suc i < length (tensors w ! prompt) \<longrightarrow>
                   tensors w' ! input_pos ! Suc i = tensors w' ! input_pos ! i + 1))"
proof (intro conjI impI allI)
  assume "0 \<le> N \<and> int (length (tensors w ! prompt)) + N < 2 ^ 63
          \<and> length (tensors w ! prompt) + nat N + length (tensors w ! prompt)
               \<le> free_elems w"
  with assms(1)
  show "\<exists>w' r. setup_cache_padded_seq_input_pos_max_seq_length_for_prefill
                  w model prompt N max_seq_length bs = (w', Inr r)"
    by (simp add: setup_returns)
next
  fix w' seq input_pos m
  assume "setup_cache_padded_seq_input_pos_max_seq_length_for_prefill
            w model prompt N max_seq_length bs = (w', Inr (seq, input_pos, m))"
  then have pos: "tensors w' ! input_pos = [0 .. int (length (tensors w ! prompt)) - 1]"
    by (rule setup_input_pos)
  show "length (tensors w' ! input_pos) = length (tensors w ! prompt)"
    by (simp add: pos)
  from assms(2) have "(0::int) \<le> int (length (tensors w ! prompt)) - 1"
    by linarith
  then have "[0 .. int (length (tensors w ! prompt)) - 1]
               = 0 # [0 + 1 .. int (length (tensors w ! prompt)) - 1]"
    and "[0 .. int (length (tensors w ! prompt)) - 1]
               = [0 .. int (length (tensors w ! prompt)) - 1 - 1]
                 @ [int (length (tensors w ! prompt)) - 1]"
    by (rule upto_rec1, rule upto_rec2)
  then show "hd (tensors w' ! input_pos) = 0"
    and "last (tensors w' ! input_pos) = int (length (tensors w ! prompt)) - 1"
    unfolding pos by (metis list.sel(1), metis last_snoc)
  fix i
  assume "Suc i < length (tensors w ! prompt)"
  then show "tensors w' ! input_pos ! Suc i = tensors w' ! input_pos ! i + 1"
    by (simp add: pos)
qed

theorem prefill_input_pos_witness:
  "(0::nat) < length (tensors \<lparr>tensors = [[5, 6, 7]], modules = [()], uninit = (\<lambda>i. 9), free_elems = 100\<rparr>)
   \<and> 1 \<le> length (tensors \<lparr>tensors = [[5, 6, 7]], modules = [()], uninit = (\<lambda>i. 9), free_elems = 100\<rparr> ! 0)
   \<and> setup_cache_padded_seq_input_pos_max_seq_length_for_prefill
        \<lparr>tensors = [[5, 6, 7]], modules = [()], uninit = (\<lambda>i. 9), free_elems = 100\<rparr> 0 0 2 None 2048
      = (\<lparr>tensors = [[5, 6, 7], [5, 6, 7, 9, 9], [0, 1, 2]], modules = [()], uninit = (\<lambda>i. 9), free_elems = 92\<rparr>,
         Inr (1, 2, 5))
   \<and> length [0, 1, 2 :: int] = 3
   \<and> hd [0, 1, 2 :: int] = 0
   \<and> last [0, 1, 2 :: int] = 3 - 1
   \<and> [0, 1, 2 :: int] ! Suc 0 = [0, 1, 2 :: int] ! 0 + 1"
  using prefill_input_pos
    [where w = "\<lparr>tensors = [[5, 6, 7]], modules = [()], uninit = (\<lambda>i. 9), free_elems = 100\<rparr>"
       and prompt = 0 and N = 2 and model = 0 and max_seq_length = None and bs = 2048]
  by (simp add: example_call)

text \<open>
  Claim C4. For a prompt of any length and \<open>N \<ge> 0\<close>, the effective maximum length
  returned is \<open>min (T + N) block_size\<close> when the caller passes no \<open>max_seq_length\<close>,
  and the caller's value when one is passed. The call does return when \<open>T + N\<close> fits
  64 bits and the allocator can provide the buffer and the positions.
\<close>

theorem prefill_effective_max_length:
  assumes "prompt < length (tensors w)"
    and "0 \<le> N"
  shows "(int (length (tensors w ! prompt)) + N < 2 ^ 63
          \<and> length (tensors w ! prompt) + nat N + length (tensors w ! prompt)
               \<le> free_elems w \<longrightarrow>
            (\<exists>w' r. setup_cache_padded_seq_input_pos_max_seq_length_for_prefill
                       w model prompt N max_seq_length bs = (w', Inr r)))
       \<and> (\<forall>w' seq input_pos m.
            setup_cache_padded_seq_input_pos_max_seq_length_for_prefill
              w model prompt N None bs = (w', Inr (seq, input_pos, m)) \<longrightarrow>
            m = min (int (length (tensors w ! prompt)) + N) bs)
       \<and> (\<forall>w' seq input_pos m.
            setup_cache_padded_seq_input_pos_max_seq_length_for_prefill
              w model prompt N (Some k) bs = (w', Inr (seq, input_pos, m)) \<longrightarrow>
            m = k)"
proof (intro conjI impI allI)
  assume "int (length (tensors w ! prompt)) + N < 2 ^ 63
          \<and> length (tensors w ! prompt) + nat N + length (tensors w ! prompt)
               \<le> free_elems w"
  with assms
  show "\<exists>w' r. setup_cache_padded_seq_input_pos_max_seq_length_for_prefill
                  w model prompt N max_seq_length bs = (w', Inr r)"
    by (simp add: setup_returns)
next
  fix w' seq input_pos m
  assume "setup_cache_padded_seq_input_pos_max_seq_length_for_prefill
            w model prompt N None bs = (w', Inr (seq, input_pos, m))"
  then have "m = (case None of
                     None \<Rightarrow> min (int (length (tensors w ! prompt)) + N) bs
                   | Some k \<Rightarrow> k)"
    by (rule setup_max_seq_length)
  then show "m = min (int (length (tensors w ! prompt)) + N) bs"
    by simp
next
  fix w' seq input_pos m
  assume "setup_cache_padded_seq_input_pos_max_seq_length_for_prefill
            w model prompt N (Some k) bs = (w', Inr (seq, input_pos, m))"
  then have "m = (case Some k of
                     None \<Rightarrow> min (int (length (tensors w ! prompt)) + N) bs
                   | Some k \<Rightarrow> k)"
    by (rule setup_max_seq_length)
  then show "m = k"
    by simp
qed

theorem prefill_effective_max_length_witness:
  "(0::nat) < length (tensors \<lparr>tensors = [[5, 6, 7]], modules = [()], uninit = (\<lambda>i. 9), free_elems = 100\<rparr>)
   \<and> (0::int) \<le> 2
   \<and> setup_cache_padded_seq_input_pos_max_seq_length_for_prefill
        \<lparr>tensors = [[5, 6, 7]], modules = [()], uninit = (\<lambda>i. 9), free_elems = 100\<rparr> 0 0 2 None 2048
      = (\<lparr>tensors = [[5, 6, 7], [5, 6, 7, 9, 9], [0, 1, 2]], modules = [()], uninit = (\<lambda>i. 9), free_elems = 92\<rparr>,
         Inr (1, 2, min (int 3 + 2) 2048))
   \<and> setup_cache_padded_seq_input_pos_max_seq_length_for_prefill
        \<lparr>tensors = [[5, 6, 7]], modules = [()], uninit = (\<lambda>i. 9), free_elems = 100\<rparr> 0 0 2 (Some 100) 2048
      = (\<lparr>tensors = [[5, 6, 7], [5, 6, 7, 9, 9], [0, 1, 2]], modules = [()], uninit = (\<lambda>i. 9), free_elems = 92\<rparr>,
         Inr (1, 2, 100))"
  using prefill_effective_max_length
    [where w = "\<lparr>tensors = [[5, 6, 7]], modules = [()], uninit = (\<lambda>i. 9), free_elems = 100\<rparr>"
       and prompt = 0 and N = 2 and model = 0 and k = 100 and bs = 2048]
  by (simp add: example_call)

text \<open>
  Claim C7. The call has no effect on what existed before it: returning or raising, it
  leaves every module as it was (no cache is set up), leaves the prompt as it was, and
  leaves every tensor that existed before the call as it was. The store only gains the
  tensors the call allocates.
\<close>

theorem prefill_no_side_effects:
  assumes "prompt < length (tensors w)"
  shows "modules (fst (setup_cache_padded_seq_input_pos_max_seq_length_for_prefill
                         w model prompt N max_seq_length bs)) = modules w
       \<and> tensors (fst (setup_cache_padded_seq_input_pos_max_seq_length_for_prefill
                         w model prompt N max_seq_length bs)) ! prompt = tensors w ! prompt
       \<and> take (length (tensors w))
            (tensors (fst (setup_cache_padded_seq_input_pos_max_seq_length_for_prefill
                             w model prompt N max_seq_length bs))) = tensors w"
proof -
  let ?w' = "fst (setup_cache_padded_seq_input_pos_max_seq_length_for_prefill
                    w model prompt N max_seq_length bs)"
  have frame: "modules ?w' = modules w \<and> take (length (tensors w)) (tensors ?w') = tensors w"
    by (rule setup_frame)
  from assms have "take (length (tensors w)) (tensors ?w') ! prompt = tensors ?w' ! prompt"
    by (rule nth_take)
  with frame show ?thesis by simp
qed

theorem prefill_no_side_effects_witness:
  "(0::nat) < length (tensors \<lparr>tensors = [[5, 6, 7]], modules = [''weights''], uninit = (\<lambda>i. 9), free_elems = 100\<rparr>)
   \<and> modules (fst (setup_cache_padded_seq_input_pos_max_seq_length_for_prefill
         \<lparr>tensors = [[5, 6, 7]], modules = [''weights''], uninit = (\<lambda>i. 9), free_elems = 100\<rparr>
         0 0 2 None 2048)) = [''weights'']
   \<and> tensors (fst (setup_cache_padded_seq_input_pos_max_seq_length_for_prefill
         \<lparr>tensors = [[5, 6, 7]], modules = [''weights''], uninit = (\<lambda>i. 9), free_elems = 100\<rparr>
         0 0 2 None 2048)) ! 0 = [5, 6, 7]
   \<and> take 1 (tensors (fst (setup_cache_padded_seq_input_pos_max_seq_length_for_prefill
         \<lparr>tensors = [[5, 6, 7]], modules = [''weights''], uninit = (\<lambda>i. 9), free_elems = 100\<rparr>
         0 0 2 None 2048))) = [[5, 6, 7]]"
  using prefill_no_side_effects
    [where w = "\<lparr>tensors = [[5, 6, 7]], modules = [''weights''], uninit = (\<lambda>i. 9), free_elems = 100\<rparr>"
       and prompt = 0 and N = 2 and model = 0 and max_seq_length = None and bs = 2048]
  by simp

text \<open>
  Claim C9 says that for an empty prompt the call raises nothing for any \<open>N \<ge> 0\<close>.
  It does raise when \<open>N\<close> does not fit 64 bits, as for \<open>N = 2 ^ 63\<close>, and when the
  allocator cannot provide \<open>N\<close> elements, as for \<open>N = 5\<close> with 3 elements left: in both
  cases \<^verbatim>\<open>torch.empty\<close> raises and nothing is returned.
\<close>

theorem prefill_empty_prompt_can_raise:
  "setup_cache_padded_seq_input_pos_max_seq_length_for_prefill
     \<lparr>tensors = [[]], modules = [()], uninit = (\<lambda>i. 9), free_elems = 100\<rparr> 0 0 (2 ^ 63) None 2048
   = (\<lparr>tensors = [[]], modules = [()], uninit = (\<lambda>i. 9), free_elems = 100\<rparr>,
      Inl (RuntimeError ''Overflow when unpacking long''))
   \<and> setup_cache_padded_seq_input_pos_max_seq_length_for_prefill
       \<lparr>tensors = [[]], modules = [()], uninit = (\<lambda>i. 9), free_elems = 3\<rparr> 0 0 5 None 2048
     = (\<lparr>tensors = [[]], modules = [()], uninit = (\<lambda>i. 9), free_elems = 3\<rparr>,
        Inl (RuntimeError ''not enough memory''))"
  by (simp add: setup_cache_padded_seq_input_pos_max_seq_length_for_prefill_def torch_empty_def)

text \<open>
  Claim C9, amended. For an empty prompt and \<open>0 \<le> N < 2 ^ 63\<close> such that the
  allocator can provide \<open>N\<close> elements, the call raises nothing: it returns a buffer of
  length \<open>N\<close> and an empty position index sequence, and when no \<open>max_seq_length\<close> is
  passed the effective maximum length is \<open>min N block_size\<close>.
\<close>

theorem prefill_empty_prompt:
  assumes "prompt < length (tensors w)"
    and "tensors w ! prompt = []"
    and "0 \<le> N"
    and "N < 2 ^ 63"
    and "nat N \<le> free_elems w"
  shows "(\<exists>w' seq input_pos m.
            setup_cache_padded_seq_input_pos_max_seq_length_for_prefill
              w model prompt N max_seq_length bs = (w', Inr (seq, input_pos, m))
            \<and> length (tensors w' ! seq) = nat N
            \<and> tensors w' ! input_pos = [])
       \<and> (\<exists>w' seq input_pos.
            setup_cache_padded_seq_input_pos_max_seq_length_for_prefill
              w model prompt N None bs = (w', Inr (seq, input_pos, min N bs)))"
  using assms by (simp add: setup_returns nth_append)

theorem prefill_empty_prompt_witness:
  "(0::nat) < length (tensors \<lparr>tensors = [[]], modules = [()], uninit = (\<lambda>i. 9), free_elems = 100\<rparr>)
   \<and> tensors \<lparr>tensors = [[]], modules = [()], uninit = (\<lambda>i. 9), free_elems = 100\<rparr> ! 0 = []
   \<and> (0::int) \<le> 2 \<and> (2::int) < 2 ^ 63
   \<and> nat 2 \<le> free_elems \<lparr>tensors = [[]], modules = [()], uninit = (\<lambda>i. 9), free_elems = 100\<rparr>
   \<and> (\<exists>w' seq input_pos m.
         setup_cache_padded_seq_input_pos_max_seq_length_for_prefill
           \<lparr>tensors = [[]], modules = [()], uninit = (\<lambda>i. 9), free_elems = 100\<rparr> 0 0 2 (Some 7) 2048
         = (w', Inr (seq, input_pos, m))
         \<and> length (tensors w' ! seq) = nat 2
         \<and> tensors w' ! input_pos = [])
   \<and> (\<exists>w' seq input_pos.
         setup_cache_padded_seq_input_pos_max_seq_length_for_prefill
           \<lparr>tensors = [[]], modules = [()], uninit = (\<lambda>i. 9), free_elems = 100\<rparr> 0 0 2 None 2048
         = (w', Inr (seq, input_pos, 2)))"
  using prefill_empty_prompt
    [where w = "\<lparr>tensors = [[]], modules = [()], uninit = (\<lambda>i. 9), free_elems = 100\<rparr>"
       and prompt = 0 and N = 2 and model = 0 and max_seq_length = "Some 7" and bs = 2048]
  by simp

section \<open>Properties of the tokenizer adapter and of the evaluation\<close>

text \<open>
  Claim C6. For every string \<open>s\<close>, \<open>tok_encode\<close> returns a flat list of integers: the
  tokenizer's beginning-of-sequence id followed by the tokenizer's encoding of \<open>s\<close>.
  The ids pass through a 32-bit integer tensor on the way, so they are taken to fit in
  32 bits, as the ids of a SentencePiece tokenizer do.
\<close>

theorem tok_encode_prepends_bos:
  assumes "fits_int32 (bos_id (tokenizer_field self))"
    and "list_all fits_int32 (encode (tokenizer_field self) s)"
  shows "tok_encode self s
           = Inr (bos_id (tokenizer_field self) # encode (tokenizer_field self) s)"
  using assms by (simp add: tok_encode_def torch_tensor_int_def tolist_def)

theorem tok_encode_prepends_bos_witness:
  "fits_int32 1
   \<and> list_all fits_int32 (map of_char ''hi'')
   \<and> tok_encode
        (GPTFastEvalWrapper_init False 0
           \<lparr>bos_id = 1, eos_id = 2, encode = map of_char, decode = map char_of\<rparr> None)
        ''hi''
      = Inr [1, 104, 105]"
  using tok_encode_prepends_bos
    [where self = "GPTFastEvalWrapper_init False 0
           \<lparr>bos_id = 1, eos_id = 2, encode = map of_char, decode = map char_of\<rparr> None"
       and s = "''hi''"]
  by (simp add: GPTFastEvalWrapper_init_def fits_int32_def)

text \<open>
  Claim C10. When the caller's list of tasks contains \<open>hendrycks_test\<close>, the call
  changes that very list object: its first \<open>hendrycks_test\<close> is removed and the
  expanded task names are appended. When the list does not contain it, the store is
  left as it was.
\<close>

theorem eval_mutates_callers_tasks:
  assumes "r < length heap"
  shows "(''hendrycks_test'' \<in> set (heap ! r) \<longrightarrow>
            fst (eval (Inr names) get_task_dict evaluate heap eval_wrapper (Some r) limit)
              = heap[r := remove1 ''hendrycks_test'' (heap ! r) @ names])
       \<and> (''hendrycks_test'' \<notin> set (heap ! r) \<longrightarrow>
            fst (eval create_all_tasks get_task_dict evaluate heap eval_wrapper (Some r) limit)
              = heap)"
  using assms by (simp add: eval_def Let_def split: sum.splits)

theorem eval_mutates_callers_tasks_witness:
  "(0::nat) < length [[''wikitext'', ''hendrycks_test'']]
   \<and> ''hendrycks_test'' \<in> set ([[''wikitext'', ''hendrycks_test'']] ! 0)
   \<and> fst (eval (Inr [''hendrycksTest-anatomy'', ''hendrycksTest-astronomy''])
             (\<lambda>ts. Inr ts) (\<lambda>lm d n. (Inr d :: error + string list))
             [[''wikitext'', ''hendrycks_test'']] () (Some 0) (Some 5))
      = [[''wikitext'', ''hendrycksTest-anatomy'', ''hendrycksTest-astronomy'']]
   \<and> ''hendrycks_test'' \<notin> set ([[''wikitext'']] ! 0)
   \<and> fst (eval (Inr [''hendrycksTest-anatomy'', ''hendrycksTest-astronomy''])
             (\<lambda>ts. Inr ts) (\<lambda>lm d n. (Inr d :: error + string list))
             [[''wikitext'']] () (Some 0) (Some 5))
      = [[''wikitext'']]"
  using eval_mutates_callers_tasks
    [where heap = "[[''wikitext'', ''hendrycks_test'']]" and r = 0
       and names = "[''hendrycksTest-anatomy'', ''hendrycksTest-astronomy'']"
       and get_task_dict = "\<lambda>ts. Inr ts"
       and evaluate = "\<lambda>lm d n. (Inr d :: error + string list)"
       and eval_wrapper = "()" and limit = "Some 5"]
    eval_mutates_callers_tasks
    [where heap = "[[''wikitext'']]" and r = 0
       and create_all_tasks = "Inr [''hendrycksTest-anatomy'', ''hendrycksTest-astronomy'']"
       and get_task_dict = "\<lambda>ts. Inr ts"
       and evaluate = "\<lambda>lm d n. (Inr d :: error + string list)"
       and eval_wrapper = "()" and limit = "Some 5"]
  by simp

end
